theory Spec2Isabelle
  imports Complex_Main "HOL-Library.AList"
begin

section \<open>Python values\<close>

text \<open>
  The values that travel through the client: request payloads, query parameters, header
  values and decoded JSON bodies. \<open>PNone\<close> is Python's \<open>None\<close>; a dictionary keeps its
  items in order as an association list. \<open>PObject\<close> is an object of any other class
  (bytes, a set, a datetime), given by the name of its class and its truth value. Floats
  do not occur in this development.
\<close>

datatype pyval =
    PNone
  | PBool bool
  | PInt int
  | PStr string
  | PList "pyval list"
  | PDict "(string \<times> pyval) list"
  | PObject string bool

type_synonym pydict = "(string \<times> pyval) list"

text \<open>Python truthiness, as tested by \<open>if payload:\<close> and \<open>if args:\<close>.\<close>

fun truthy :: "pyval \<Rightarrow> bool" where
  "truthy PNone = False"
| "truthy (PBool b) = b"
| "truthy (PInt i) = (i \<noteq> 0)"
| "truthy (PStr s) = (s \<noteq> [])"
| "truthy (PList xs) = (xs \<noteq> [])"
| "truthy (PDict kvs) = (kvs \<noteq> [])"
| "truthy (PObject cls b) = b"

text \<open>\<open>str.startswith\<close>.\<close>

fun startswith :: "string \<Rightarrow> string \<Rightarrow> bool" where
  "startswith s [] = True"
| "startswith [] (p # ps) = False"
| "startswith (c # cs) (p # ps) = (c = p \<and> startswith cs ps)"

text \<open>
  \<open>"%s" % v\<close> and \<open>"{0}".format(v)\<close> print \<open>str(v)\<close>: a string prints as itself, \<open>None\<close> as
  the four letters \<open>None\<close>, a boolean as \<open>True\<close> or \<open>False\<close>. For numbers and containers
  the text is Python's \<open>repr\<close>, which the environment supplies.
\<close>

fun py_str :: "(pyval \<Rightarrow> string) \<Rightarrow> pyval \<Rightarrow> string" where
  "py_str rp (PStr s) = s"
| "py_str rp PNone = ''None''"
| "py_str rp (PBool b) = (if b then ''True'' else ''False'')"
| "py_str rp v = rp v"

text \<open>\<open>d.get(key, default)\<close> on a dictionary.\<close>

definition dict_get :: "pydict \<Rightarrow> string \<Rightarrow> pyval \<Rightarrow> pyval" where
  "dict_get d k dflt = (case map_of d k of None \<Rightarrow> dflt | Some v \<Rightarrow> v)"

text \<open>\<open>d.update(e)\<close>: the items of \<open>e\<close> are stored into \<open>d\<close> one after the other.\<close>

definition dict_update :: "pydict \<Rightarrow> pydict \<Rightarrow> pydict" where
  "dict_update d e = foldl (\<lambda>acc (k, v). AList.update k v acc) d e"

section \<open>The HTTP library's objects\<close>

text \<open>
  The keyword arguments handed to \<open>urllib3.Retry\<close>, each kept as the value the source
  writes: an integer, \<open>None\<close>, \<open>False\<close> or a tuple of integers.
\<close>

datatype retry_arg = RNone | RFalse | RInt int | RTuple "int list"

record retry =
  total :: retry_arg
  connect :: retry_arg
  read :: retry_arg
  allowed_methods :: "string set"
  status :: retry_arg
  backoff_factor :: rat
  status_forcelist :: retry_arg

record http_adapter =
  max_retries :: retry

text \<open>
  A session is the table of its mounted adapters. A fresh \<open>requests.Session()\<close> comes with
  the library's own adapters for both prefixes; the client replaces both at once, so the
  fresh session starts empty here.
\<close>

record session =
  adapters :: "(string \<times> http_adapter) list"

definition requests_Session :: session where
  "requests_Session = \<lparr>adapters = []\<rparr>"

definition mount :: "string \<Rightarrow> http_adapter \<Rightarrow> session \<Rightarrow> session" where
  "mount pfx a s = s\<lparr>adapters := AList.update pfx a (adapters s)\<rparr>"

text \<open>What is handed to \<open>session.request\<close>.\<close>

record request =
  req_method :: string
  req_url :: string
  req_headers :: pydict
  req_proxies :: pyval
  req_timeout :: int
  req_params :: pydict
  req_data :: "pyval option"

text \<open>
  A response: \<open>resp_json\<close> is what \<open>response.json()\<close> gives, \<open>None\<close> when it raises
  \<open>ValueError\<close> because the body is not JSON.
\<close>

record response =
  status_code :: int
  resp_url :: string
  resp_text :: string
  resp_headers :: "(string \<times> string) list"
  resp_json :: "pyval option"

text \<open>
  A \<open>RetryError\<close>: the prepared request it carries (the adapter always attaches it) and
  its \<open>args\<close>. An argument may or may not have a \<open>reason\<close> attribute.
\<close>

record prepared_request =
  path_url :: string

record exc_arg =
  arg_reason :: "pyval option"

record retry_error =
  err_request :: prepared_request
  err_args :: "exc_arg list"

text \<open>
  Modelled from the spec: the class \<open>EverHomeException\<close> of \<open>everhome.exceptions\<close>, which
  is imported by the client and not part of the sources. The spec gives its fields:
  \<open>http_status\<close>, \<open>error_code\<close>, \<open>message\<close>, an optional \<open>reason\<close> and optional \<open>headers\<close>;
  the two optional ones are absent (\<open>None\<close>) unless the raise supplies them.
\<close>

record everhome_error =
  http_status :: int
  error_code :: int
  message :: string
  reason :: pyval
  headers :: "(string \<times> string) list option"

definition EverHomeException ::
  "int \<Rightarrow> int \<Rightarrow> string \<Rightarrow> pyval option \<Rightarrow> (string \<times> string) list option \<Rightarrow> everhome_error" where
  "EverHomeException st code msg rsn hdrs =
     \<lparr>http_status = st, error_code = code, message = msg,
      reason = (case rsn of None \<Rightarrow> PNone | Some r \<Rightarrow> r), headers = hdrs\<rparr>"

text \<open>
  The exceptions, by the handler that takes them: \<open>HTTPError\<close>, \<open>RetryError\<close>, any
  instance of \<open>ValueError\<close>, \<open>AttributeError\<close>, the client's own error, and every other
  class (connection errors, timeouts, ...) under its name.
\<close>

datatype py_exception =
    HTTPError response
  | RetryError retry_error
  | ValueError
  | AttributeError
  | EverHomeError everhome_error
  | OtherException string

datatype outcome = Returns response | Raises py_exception

text \<open>
  What lies outside the program: \<open>json.dumps\<close>, Python's \<open>repr\<close>, and what the session
  does with a request (the network, the server and the retry machinery). \<open>json.dumps\<close>
  either returns a text or raises (\<open>TypeError\<close> on a value that is not JSON,
  \<open>ValueError\<close> on a circular one): \<open>json_dumps_error\<close> is the exception it raises on a
  value, if any, and \<open>json_dumps\<close> the text it returns otherwise.
\<close>

record env =
  json_dumps :: "pyval \<Rightarrow> string"
  json_dumps_error :: "pyval \<Rightarrow> py_exception option"
  py_repr :: "pyval \<Rightarrow> string"
  session_request :: "session \<Rightarrow> request \<Rightarrow> outcome"

text \<open>
  \<open>response.raise_for_status()\<close> raises \<open>HTTPError\<close>, carrying the response, exactly for
  the status codes 400 to 599.
\<close>

definition raise_for_status :: "response \<Rightarrow> py_exception option" where
  "raise_for_status r =
     (if 400 \<le> status_code r \<and> status_code r < 600 then Some (HTTPError r) else None)"

section \<open>The client\<close>

record client =
  prefix :: string
  auth :: "string option"
  session :: session
  requests_timeout :: int

definition EverHome_build_session :: "client \<Rightarrow> client" where
  "EverHome_build_session self =
     (let retry = \<lparr>total = RInt 3,
                   connect = RNone,
                   read = RFalse,
                   allowed_methods = {''GET'', ''POST'', ''PUT'', ''DELETE''},
                   status = RTuple [429, 500, 502, 503, 504],
                   backoff_factor = 3 / 10,
                   status_forcelist = RNone\<rparr>;
          adapter = \<lparr>max_retries = retry\<rparr>
      in self\<lparr>session := mount ''https://'' adapter (mount ''http://'' adapter requests_Session)\<rparr>)"

definition EverHome_init :: "string option \<Rightarrow> int \<Rightarrow> client" where
  "EverHome_init a t =
     EverHome_build_session
       \<lparr>prefix = ''https://everhome.cloud/'', auth = a, session = requests_Session,
        requests_timeout = t\<rparr>"

definition EverHome_set_auth :: "client \<Rightarrow> string option \<Rightarrow> client" where
  "EverHome_set_auth self a = self\<lparr>auth := a\<rparr>"

definition format_auth :: "string option \<Rightarrow> string" where
  "format_auth a = (case a of None \<Rightarrow> ''None'' | Some t \<Rightarrow> t)"

definition EverHome_auth_headers :: "client \<Rightarrow> pydict" where
  "EverHome_auth_headers self = [(''Authorization'', PStr (''Bearer '' @ format_auth (auth self)))]"

text \<open>
  Lines 71-72 of \<open>_internal_call\<close>: a URL that does not start with the four letters
  \<open>http\<close> gets the prefix in front.
\<close>

definition resolve_url :: "client \<Rightarrow> string \<Rightarrow> string" where
  "resolve_url self url = (if \<not> startswith url ''http'' then prefix self @ url else url)"

text \<open>
  Line 83 of \<open>_internal_call\<close>: \<open>json.dumps(payload)\<close> runs for a truthy payload without
  a \<open>content_type\<close> override, and it runs before the \<open>try\<close> of line 88. An exception
  it raises is taken by no handler and no request is made.
\<close>

definition dumps_failure :: "env \<Rightarrow> pyval \<Rightarrow> pydict \<Rightarrow> py_exception option" where
  "dumps_failure e payload params =
     (if map_of params ''content_type'' = None \<and> truthy payload
      then json_dumps_error e payload else None)"

text \<open>
  Lines 70-92 of \<open>_internal_call\<close>: the arguments of \<open>session.request\<close>, for a call
  that gets there. The key \<open>data\<close> is only set for a truthy payload.
\<close>

definition EverHome_prepare ::
  "env \<Rightarrow> client \<Rightarrow> string \<Rightarrow> string \<Rightarrow> pyval \<Rightarrow> pydict \<Rightarrow> request" where
  "EverHome_prepare e self method url payload params =
     (let url = resolve_url self url;
          headers = EverHome_auth_headers self
      in (case map_of params ''content_type'' of
            Some ct \<Rightarrow>
              \<lparr>req_method = method, req_url = url,
               req_headers = AList.update ''Content-Type'' ct headers,
               req_proxies = PNone, req_timeout = requests_timeout self,
               req_params = AList.delete ''content_type'' params,
               req_data = (if truthy payload then Some payload else None)\<rparr>
          | None \<Rightarrow>
              \<lparr>req_method = method, req_url = url,
               req_headers = AList.update ''Content-Type'' (PStr ''application/json'') headers,
               req_proxies = PNone, req_timeout = requests_timeout self,
               req_params = params,
               req_data = (if truthy payload then Some (PStr (json_dumps e payload)) else None)\<rparr>))"

text \<open>
  Lines 98-109: message and reason out of the body of an error response. \<open>.get\<close> on a
  decoded body, or on an \<open>error\<close> entry, that is not a dictionary raises
  \<open>AttributeError\<close>, which the inner \<open>except ValueError\<close> does not take.
\<close>

definition error_body :: "response \<Rightarrow> py_exception + pyval \<times> pyval" where
  "error_body response =
     (case resp_json response of
        Some (PDict json_response) \<Rightarrow>
          (case dict_get json_response ''error'' (PDict []) of
             PDict error \<Rightarrow> Inr (dict_get error ''message'' PNone, dict_get error ''reason'' PNone)
           | _ \<Rightarrow> Inl AttributeError)
      | Some _ \<Rightarrow> Inl AttributeError
      | None \<Rightarrow>
          Inr (if resp_text response = [] then PNone else PStr (resp_text response), PNone))"

text \<open>Lines 96-122: the handler of \<open>HTTPError\<close>; it always raises.\<close>

definition http_error_handler :: "env \<Rightarrow> response \<Rightarrow> py_exception" where
  "http_error_handler e response =
     (case error_body response of
        Inl x \<Rightarrow> x
      | Inr (msg, rsn) \<Rightarrow>
          EverHomeError
            (EverHomeException (status_code response) (- 1)
               (resp_url response @ [CHR '':'', CHR 0x0A, CHR '' ''] @ py_str (py_repr e) msg)
               (Some rsn) (Some (resp_headers response))))"

text \<open>
  Lines 123-135: the handler of \<open>RetryError\<close>. \<open>args[0].reason\<close> falls back to \<open>None\<close> on
  \<open>IndexError\<close> (no argument) and on \<open>AttributeError\<close> (no such attribute).
\<close>

definition retry_error_handler :: "retry_error \<Rightarrow> py_exception" where
  "retry_error_handler retry_error =
     (let request = err_request retry_error;
          rsn = (case err_args retry_error of
                   [] \<Rightarrow> PNone
                 | a # _ \<Rightarrow> (case arg_reason a of None \<Rightarrow> PNone | Some r \<Rightarrow> r))
      in EverHomeError
           (EverHomeException 429 (- 1)
              (path_url request @ [CHR '':'', CHR 0x0A, CHR '' ''] @ ''Max Retries'')
              (Some rsn) None))"

text \<open>
  Lines 88-95: the body of the \<open>try\<close>. It ends in the decoded body, or in the exception
  raised by the session, by \<open>raise_for_status\<close> or by \<open>response.json()\<close>.
\<close>

definition try_request :: "env \<Rightarrow> client \<Rightarrow> request \<Rightarrow> py_exception + pyval" where
  "try_request e self req =
     (case session_request e (session self) req of
        Raises x \<Rightarrow> Inl x
      | Returns response \<Rightarrow>
          (case raise_for_status response of
             Some x \<Rightarrow> Inl x
           | None \<Rightarrow>
               (case resp_json response of None \<Rightarrow> Inl ValueError | Some results \<Rightarrow> Inr results)))"

text \<open>
  \<open>_internal_call\<close>. The result is the returned value or the exception that leaves the
  call, together with the client afterwards: no statement of the method assigns to a
  field of \<open>self\<close>. An exception of \<open>json.dumps\<close> leaves the call before the \<open>try\<close>;
  the handlers only see what the body of the \<open>try\<close> raises.
\<close>

definition EverHome_internal_call ::
  "env \<Rightarrow> client \<Rightarrow> string \<Rightarrow> string \<Rightarrow> pyval \<Rightarrow> pydict \<Rightarrow> (py_exception + pyval) \<times> client" where
  "EverHome_internal_call e self method url payload params =
     (case dumps_failure e payload params of
        Some x \<Rightarrow> (Inl x, self)
      | None \<Rightarrow>
          (case try_request e self (EverHome_prepare e self method url payload params) of
             Inl (HTTPError response) \<Rightarrow> (Inl (http_error_handler e response), self)
           | Inl (RetryError retry_error) \<Rightarrow> (Inl (retry_error_handler retry_error), self)
           | Inl ValueError \<Rightarrow> (Inr PNone, self)
           | Inl x \<Rightarrow> (Inl x, self)
           | Inr results \<Rightarrow> (Inr results, self)))"

text \<open>
  The verb wrappers: \<open>if args: kwargs.update(args)\<close>, then the core call. \<open>args\<close> is
  \<open>None\<close> or a dictionary.
\<close>

definition merge_args :: "pydict option \<Rightarrow> pydict \<Rightarrow> pydict" where
  "merge_args args kwargs =
     (case args of
        None \<Rightarrow> kwargs
      | Some a \<Rightarrow> if a \<noteq> [] then dict_update kwargs a else kwargs)"

definition EverHome_get ::
  "env \<Rightarrow> client \<Rightarrow> string \<Rightarrow> pydict option \<Rightarrow> pyval \<Rightarrow> pydict \<Rightarrow> (py_exception + pyval) \<times> client" where
  "EverHome_get e self url args payload kwargs =
     EverHome_internal_call e self ''GET'' url payload (merge_args args kwargs)"

definition EverHome_post ::
  "env \<Rightarrow> client \<Rightarrow> string \<Rightarrow> pydict option \<Rightarrow> pyval \<Rightarrow> pydict \<Rightarrow> (py_exception + pyval) \<times> client" where
  "EverHome_post e self url args payload kwargs =
     EverHome_internal_call e self ''POST'' url payload (merge_args args kwargs)"

definition EverHome_delete ::
  "env \<Rightarrow> client \<Rightarrow> string \<Rightarrow> pydict option \<Rightarrow> pyval \<Rightarrow> pydict \<Rightarrow> (py_exception + pyval) \<times> client" where
  "EverHome_delete e self url args payload kwargs =
     EverHome_internal_call e self ''DELETE'' url payload (merge_args args kwargs)"

definition EverHome_put ::
  "env \<Rightarrow> client \<Rightarrow> string \<Rightarrow> pydict option \<Rightarrow> pyval \<Rightarrow> pydict \<Rightarrow> (py_exception + pyval) \<times> client" where
  "EverHome_put e self url args payload kwargs =
     EverHome_internal_call e self ''PUT'' url payload (merge_args args kwargs)"

definition EverHome_user :: "env \<Rightarrow> client \<Rightarrow> (py_exception + pyval) \<times> client" where
  "EverHome_user e self = EverHome_get e self ''user/current'' None PNone []"

definition EverHome_test :: "env \<Rightarrow> client \<Rightarrow> (py_exception + pyval) \<times> client" where
  "EverHome_test e self =
     (case EverHome_get e self ''devices'' None PNone [] of
        (Inl x, self') \<Rightarrow> (Inl x, self')
      | (Inr _, self') \<Rightarrow> (Inr (PInt 42), self'))"

section \<open>A caller issuing calls one after the other\<close>

text \<open>
  A caller that makes core calls in sequence on one client, going on after a failed call
  as one that catches the exception does. The result is the list of requests handed to
  the session, in order, and the client at the end. A call that \<open>json.dumps\<close> stops
  hands none.
\<close>

type_synonym call = "string \<times> string \<times> pyval \<times> pydict"

fun run_calls :: "env \<Rightarrow> client \<Rightarrow> call list \<Rightarrow> request list \<times> client" where
  "run_calls e self [] = ([], self)"
| "run_calls e self ((m, u, p, ps) # cs) =
     (let self' = snd (EverHome_internal_call e self m u p ps);
          rest = run_calls e self' cs;
          sent = (case dumps_failure e p ps of
                    None \<Rightarrow> [EverHome_prepare e self m u p ps]
                  | Some x \<Rightarrow> [])
      in (sent @ fst rest, snd rest))"

definition authorization :: "request \<Rightarrow> pyval option" where
  "authorization r = map_of (req_headers r) ''Authorization''"

section \<open>The words of the specification\<close>

text \<open>
  The specification speaks of a URL that starts with a URL scheme. A scheme is a letter
  followed by letters, digits, \<open>+\<close>, \<open>-\<close> or \<open>.\<close>, up to a colon.
\<close>

definition is_alpha :: "char \<Rightarrow> bool" where
  "is_alpha c =
     (let n = (of_char c :: nat) in (65 \<le> n \<and> n \<le> 90) \<or> (97 \<le> n \<and> n \<le> 122))"

definition is_scheme_char :: "char \<Rightarrow> bool" where
  "is_scheme_char c =
     (let n = (of_char c :: nat)
      in is_alpha c \<or> (48 \<le> n \<and> n \<le> 57) \<or> c = CHR ''+'' \<or> c = CHR ''-'' \<or> c = CHR ''.'')"

fun scheme_rest :: "string \<Rightarrow> bool" where
  "scheme_rest [] = False"
| "scheme_rest (c # cs) =
     (if c = CHR '':'' then True else if is_scheme_char c then scheme_rest cs else False)"

definition spec_starts_with_scheme :: "string \<Rightarrow> bool" where
  "spec_starts_with_scheme url =
     (case url of [] \<Rightarrow> False | c # cs \<Rightarrow> is_alpha c \<and> scheme_rest cs)"

section \<open>A concrete environment\<close>

text \<open>
  A server for the worked examples: it answers by the URL it is asked for. \<open>json.dumps\<close>
  is given at the payloads the examples send: the empty dictionary, \<open>{"on": True}\<close>, and
  an object that is not JSON, on which it raises \<open>TypeError\<close>. \<open>repr\<close> is never reached
  there.
\<close>

definition demo_dumps_error :: "pyval \<Rightarrow> py_exception option" where
  "demo_dumps_error v =
     (case v of PObject cls b \<Rightarrow> Some (OtherException ''TypeError'') | _ \<Rightarrow> None)"

definition demo_dumps :: "pyval \<Rightarrow> string" where
  "demo_dumps v = (if v = PDict [(''on'', PBool True)] then ''{\"on\": true}'' else ''{}'')"

definition not_found_response :: response where
  "not_found_response =
     \<lparr>status_code = 404, resp_url = ''https://everhome.cloud/user/current'',
      resp_text = ''{\"error\": {\"message\": \"not found\", \"reason\": \"no_such_user\"}}'',
      resp_headers = [(''Content-Type'', ''application/json'')],
      resp_json = Some (PDict [(''error'',
         PDict [(''message'', PStr ''not found''), (''reason'', PStr ''no_such_user'')])])\<rparr>"

definition server_error_response :: "string \<Rightarrow> string \<Rightarrow> response" where
  "server_error_response url body =
     \<lparr>status_code = 500, resp_url = url, resp_text = body, resp_headers = [],
      resp_json = None\<rparr>"

definition ok_response :: "string \<Rightarrow> pyval option \<Rightarrow> response" where
  "ok_response body js =
     \<lparr>status_code = 200, resp_url = ''https://everhome.cloud/ok'',
      resp_text = body, resp_headers = [], resp_json = js\<rparr>"

definition max_retries_error :: retry_error where
  "max_retries_error =
     \<lparr>err_request = \<lparr>path_url = ''/devices''\<rparr>,
      err_args = [\<lparr>arg_reason = Some (PStr ''too many 503 error responses'')\<rparr>]\<rparr>"

definition demo_server :: "session \<Rightarrow> request \<Rightarrow> outcome" where
  "demo_server s rq =
     (if req_url rq = ''https://everhome.cloud/user/current'' then Returns not_found_response
      else if req_url rq = ''https://everhome.cloud/devices''
        then Returns (server_error_response ''https://everhome.cloud/devices'' ''internal error'')
      else if req_url rq = ''https://everhome.cloud/empty'' then Returns (server_error_response ''https://everhome.cloud/empty'' [])
      else if req_url rq = ''https://everhome.cloud/busy'' then Raises (RetryError max_retries_error)
      else if req_url rq = ''https://everhome.cloud/down''
        then Raises (OtherException ''ConnectionError'')
      else if req_url rq = ''https://everhome.cloud/html''
        then Returns (ok_response ''<html></html>'' None)
      else Returns (ok_response ''{}'' (Some (PDict []))))"

definition demo_env :: env where
  "demo_env =
     \<lparr>json_dumps = demo_dumps, json_dumps_error = demo_dumps_error, py_repr = (\<lambda>v. ''{}''),
      session_request = demo_server\<rparr>"

definition demo_client :: client where
  "demo_client = EverHome_init (Some ''123'') 5"

section \<open>Auxiliary facts\<close>

lemma authorization_prepare:
  "authorization (EverHome_prepare e self m u p ps) =
     Some (PStr (''Bearer '' @ format_auth (auth self)))"
  by (simp add: authorization_def EverHome_prepare_def EverHome_auth_headers_def Let_def
      update_conv' split: option.splits)

lemma internal_call_client: "snd (EverHome_internal_call e self m u p ps) = self"
  by (simp add: EverHome_internal_call_def split: option.splits sum.splits py_exception.splits)

lemma run_calls_client: "snd (run_calls e self cs) = self"
  by (induction cs arbitrary: self) (auto simp: Let_def internal_call_client)

lemma run_calls_authorization:
  "list_all (\<lambda>r. authorization r = Some (PStr (''Bearer '' @ format_auth (auth self))))
     (fst (run_calls e self cs))"
  by (induction cs arbitrary: self)
    (auto simp: Let_def internal_call_client authorization_prepare split: option.splits)

lemma try_request_error_status:
  assumes "session_request e (session self) rq = Returns r"
    and "400 \<le> status_code r" and "status_code r < 600"
  shows "try_request e self rq = Inl (HTTPError r)"
  using assms by (simp add: try_request_def raise_for_status_def)

lemma error_body_raises: "error_body r = Inl x \<Longrightarrow> x = AttributeError"
  by (auto simp: error_body_def split: option.splits pyval.splits)

lemma demo_dumps_none: "dumps_failure demo_env PNone ps = None"
  by (simp add: dumps_failure_def)

lemma demo_dumps_object:
  "json_dumps_error demo_env (PObject cls b) = Some (OtherException ''TypeError'')"
  by (simp add: demo_env_def demo_dumps_error_def)

lemma demo_client_fields:
  "prefix demo_client = ''https://everhome.cloud/''"
  "auth demo_client = Some ''123''"
  "requests_timeout demo_client = 5"
  by (simp_all add: demo_client_def EverHome_init_def EverHome_build_session_def Let_def)

lemma demo_request_url:
  "req_url (EverHome_prepare demo_env demo_client m u p ps) = resolve_url demo_client u"
  by (simp add: EverHome_prepare_def Let_def split: option.splits)

lemma demo_session_request: "session_request demo_env s rq = demo_server s rq"
  by (simp add: demo_env_def)

lemma demo_answers:
  "session_request demo_env s (EverHome_prepare demo_env demo_client m ''user/current'' p ps)
     = Returns not_found_response"
  "session_request demo_env s (EverHome_prepare demo_env demo_client m ''devices'' p ps)
     = Returns (server_error_response ''https://everhome.cloud/devices'' ''internal error'')"
  "session_request demo_env s (EverHome_prepare demo_env demo_client m ''empty'' p ps)
     = Returns (server_error_response ''https://everhome.cloud/empty'' [])"
  "session_request demo_env s (EverHome_prepare demo_env demo_client m ''busy'' p ps)
     = Raises (RetryError max_retries_error)"
  "session_request demo_env s (EverHome_prepare demo_env demo_client m ''down'' p ps)
     = Raises (OtherException ''ConnectionError'')"
  "session_request demo_env s (EverHome_prepare demo_env demo_client m ''html'' p ps)
     = Returns (ok_response ''<html></html>'' None)"
  "session_request demo_env s (EverHome_prepare demo_env demo_client m ''ok'' p ps)
     = Returns (ok_response ''{}'' (Some (PDict [])))"
  by (simp_all add: demo_session_request demo_server_def demo_request_url resolve_url_def
      demo_client_fields)

section \<open>The retry policy of the session\<close>

text \<open>
  C1. The session built at construction carries, for both URL prefixes, one retry policy:
  \<open>total\<close> 3, \<open>connect\<close> unset, \<open>read\<close> switched off, the four methods GET, POST, PUT and
  DELETE, backoff factor 0.3. The five status codes 429, 500, 502, 503 and 504 are stored
  under \<open>status\<close>, the library's count of retries on a bad status, while
  \<open>status_forcelist\<close>, the set of status codes that force a retry, is \<open>None\<close>: the
  session is not configured to retry on those codes.
\<close>

theorem retry_policy_as_built:
  "session (EverHome_init a t) =
     \<lparr>adapters =
        [(''http://'',
          \<lparr>max_retries =
             \<lparr>total = RInt 3, connect = RNone, read = RFalse,
              allowed_methods = {''GET'', ''POST'', ''PUT'', ''DELETE''},
              status = RTuple [429, 500, 502, 503, 504],
              backoff_factor = 3 / 10,
              status_forcelist = RNone\<rparr>\<rparr>),
         (''https://'',
          \<lparr>max_retries =
             \<lparr>total = RInt 3, connect = RNone, read = RFalse,
              allowed_methods = {''GET'', ''POST'', ''PUT'', ''DELETE''},
              status = RTuple [429, 500, 502, 503, 504],
              backoff_factor = 3 / 10,
              status_forcelist = RNone\<rparr>\<rparr>)]\<rparr>"
  by (simp add: EverHome_init_def EverHome_build_session_def mount_def requests_Session_def Let_def)

section \<open>The URL of a request\<close>

text \<open>
  The test of the code is on the four letters \<open>http\<close>, not on a scheme:
  \<open>ftp://example.org/x\<close> starts with a scheme and still gets the base URL in front, and
  the relative path \<open>httpd/status\<close> starts with no scheme and is sent as it is.
\<close>

theorem resolve_url_scheme_counterexample:
  "spec_starts_with_scheme ''ftp://example.org/x'' \<and>
   req_url (EverHome_prepare demo_env demo_client ''GET'' ''ftp://example.org/x'' PNone [])
     \<noteq> ''ftp://example.org/x'' \<and>
   \<not> spec_starts_with_scheme ''httpd/status'' \<and>
   req_url (EverHome_prepare demo_env demo_client ''GET'' ''httpd/status'' PNone [])
     \<noteq> prefix demo_client @ ''httpd/status''"
  by (simp add: spec_starts_with_scheme_def is_alpha_def is_scheme_char_def
      EverHome_prepare_def resolve_url_def demo_client_def EverHome_init_def
      EverHome_build_session_def Let_def)

text \<open>
  C2, amended. For every call of the core request operation, a URL that does not start
  with the letters \<open>http\<close> is sent with the fixed base URL \<open>https://everhome.cloud/\<close> in
  front, and a URL that starts with \<open>http\<close> is sent unchanged.
\<close>

theorem resolve_url_http_prefix:
  "req_url (EverHome_prepare e self m url p ps) =
     (if startswith url ''http'' then url else prefix self @ url) \<and>
   prefix (EverHome_init a t) = ''https://everhome.cloud/''"
  by (simp add: EverHome_prepare_def resolve_url_def Let_def EverHome_init_def
      EverHome_build_session_def split: option.splits)

theorem resolve_url_http_prefix_witness:
  "req_url (EverHome_prepare demo_env (EverHome_init (Some ''123'') 5) ''GET'' ''user/current'' PNone [])
     = ''https://everhome.cloud/user/current'' \<and>
   req_url (EverHome_prepare demo_env (EverHome_init (Some ''123'') 5) ''GET'' ''http://localhost/x'' PNone [])
     = ''http://localhost/x''"
  using resolve_url_http_prefix [of demo_env "EverHome_init (Some ''123'') 5" "''GET''"
      "''user/current''" PNone "[]" "Some ''123''" 5]
    resolve_url_http_prefix [of demo_env "EverHome_init (Some ''123'') 5" "''GET''"
      "''http://localhost/x''" PNone "[]" "Some ''123''" 5]
  by simp

section \<open>Content type and payload\<close>

text \<open>
  An empty dictionary is a payload that is present, and it is falsy: without a
  \<open>content_type\<close> override the request carries no body at all, where its JSON text
  \<open>{}\<close> was to be sent.
\<close>

theorem json_payload_counterexample:
  "PDict [] \<noteq> PNone \<and>
   map_of ([] :: pydict) ''content_type'' = None \<and>
   req_data (EverHome_prepare demo_env demo_client ''POST'' ''devices'' (PDict []) []) = None \<and>
   req_data (EverHome_prepare demo_env demo_client ''POST'' ''devices'' (PDict []) [])
     \<noteq> Some (PStr (json_dumps demo_env (PDict [])))"
  by (simp add: EverHome_prepare_def Let_def)

text \<open>
  C3, amended. For every call of the core request operation: if the parameter mapping
  contains the key \<open>content_type\<close>, its value becomes the \<open>Content-Type\<close> header, the key
  is removed from the parameters sent (the others stay) and a truthy payload is sent
  unmodified; otherwise \<open>Content-Type\<close> is \<open>application/json\<close>, the parameters are sent
  as given and a truthy payload is sent JSON-serialized. A falsy payload (\<open>None\<close>,
  \<open>False\<close>, 0, an empty string, list or dictionary) is not sent in either case.
\<close>

theorem content_type_and_payload:
  "(map_of params ''content_type'' = Some ct \<longrightarrow>
      map_of (req_headers (EverHome_prepare e self m url payload params)) ''Content-Type'' = Some ct \<and>
      req_params (EverHome_prepare e self m url payload params) = AList.delete ''content_type'' params \<and>
      map_of (req_params (EverHome_prepare e self m url payload params)) ''content_type'' = None \<and>
      (\<forall>k. k \<noteq> ''content_type'' \<longrightarrow>
         map_of (req_params (EverHome_prepare e self m url payload params)) k = map_of params k) \<and>
      req_data (EverHome_prepare e self m url payload params) =
        (if truthy payload then Some payload else None)) \<and>
   (map_of params ''content_type'' = None \<longrightarrow>
      map_of (req_headers (EverHome_prepare e self m url payload params)) ''Content-Type''
        = Some (PStr ''application/json'') \<and>
      req_params (EverHome_prepare e self m url payload params) = params \<and>
      req_data (EverHome_prepare e self m url payload params) =
        (if truthy payload then Some (PStr (json_dumps e payload)) else None))"
  by (simp add: EverHome_prepare_def Let_def update_conv' delete_conv')

theorem content_type_and_payload_witness:
  "req_headers (EverHome_prepare demo_env demo_client ''POST'' ''devices'' (PStr ''a=1'')
      [(''content_type'', PStr ''text/plain''), (''page'', PInt 2)])
     = [(''Authorization'', PStr ''Bearer 123''), (''Content-Type'', PStr ''text/plain'')] \<and>
   req_params (EverHome_prepare demo_env demo_client ''POST'' ''devices'' (PStr ''a=1'')
      [(''content_type'', PStr ''text/plain''), (''page'', PInt 2)]) = [(''page'', PInt 2)] \<and>
   req_data (EverHome_prepare demo_env demo_client ''POST'' ''devices'' (PStr ''a=1'')
      [(''content_type'', PStr ''text/plain''), (''page'', PInt 2)]) = Some (PStr ''a=1'') \<and>
   req_data (EverHome_prepare demo_env demo_client ''POST'' ''devices'' (PDict [(''on'', PBool True)])
      [(''page'', PInt 2)]) = Some (PStr ''{\"on\": true}'')"
  using content_type_and_payload [of "[(''content_type'', PStr ''text/plain''), (''page'', PInt 2)]"
      "PStr ''text/plain''" demo_env demo_client "''POST''" "''devices''" "PStr ''a=1''"]
    content_type_and_payload [of "[(''page'', PInt 2)]" PNone demo_env demo_client "''POST''" "''devices''"
      "PDict [(''on'', PBool True)]"]
  by (simp add: EverHome_prepare_def Let_def EverHome_auth_headers_def demo_client_fields
      format_auth_def demo_env_def demo_dumps_def)

section \<open>Error responses\<close>

text \<open>
  C4. For a response, to the request of a call that got to the session, with an HTTP
  error status (400 to 599) whose body decodes to a JSON object with an \<open>error\<close> object
  that has a \<open>message\<close> and a \<open>reason\<close>, the core request operation raises the typed
  error with the status code of the response, error code -1,
  the message made of the URL of the response, a colon, a line break, a blank and the
  extracted message, the extracted reason, and the headers of the response.
\<close>

theorem http_error_json_body:
  assumes "session_request e (session self) (EverHome_prepare e self m u p ps) = Returns r"
    and "400 \<le> status_code r" and "status_code r < 600"
    and "resp_json r = Some (PDict body)"
    and "map_of body ''error'' = Some (PDict err)"
    and "map_of err ''message'' = Some msg"
    and "map_of err ''reason'' = Some rsn"
    and "dumps_failure e p ps = None"
  shows "fst (EverHome_internal_call e self m u p ps) =
     Inl (EverHomeError
       \<lparr>http_status = status_code r, error_code = - 1,
        message = resp_url r @ [CHR '':'', CHR 0x0A, CHR '' ''] @ py_str (py_repr e) msg,
        reason = rsn, headers = Some (resp_headers r)\<rparr>)"
proof -
  have "error_body r = Inr (msg, rsn)"
    using assms(4-7) by (simp add: error_body_def dict_get_def)
  then have "http_error_handler e r =
     EverHomeError
       \<lparr>http_status = status_code r, error_code = - 1,
        message = resp_url r @ [CHR '':'', CHR 0x0A, CHR '' ''] @ py_str (py_repr e) msg,
        reason = rsn, headers = Some (resp_headers r)\<rparr>"
    by (simp add: http_error_handler_def EverHomeException_def)
  then show ?thesis
    using try_request_error_status [OF assms(1-3)] assms(8)
    by (simp add: EverHome_internal_call_def)
qed

theorem http_error_json_body_witness:
  "status_code not_found_response = 404 \<and>
   fst (EverHome_internal_call demo_env demo_client ''GET'' ''user/current'' PNone []) =
     Inl (EverHomeError
       \<lparr>http_status = 404, error_code = - 1,
        message = ''https://everhome.cloud/user/current:'' @ [CHR 0x0A] @ '' not found'',
        reason = PStr ''no_such_user'',
        headers = Some [(''Content-Type'', ''application/json'')]\<rparr>)"
  using http_error_json_body [of demo_env demo_client "''GET''" "''user/current''" PNone "[]"
      not_found_response
      "[(''error'', PDict [(''message'', PStr ''not found''), (''reason'', PStr ''no_such_user'')])]"
      "[(''message'', PStr ''not found''), (''reason'', PStr ''no_such_user'')]"
      "PStr ''not found''" "PStr ''no_such_user''"]
  by (simp add: demo_answers not_found_response_def demo_dumps_none)

text \<open>
  C5. For a response, to the request of a call that got to the session, with an HTTP
  error status whose body does not decode as JSON, the message taken from the body is
  the raw text of the response when that text is not
  empty and \<open>None\<close> when it is empty (printed as \<open>None\<close> in the message of the raised
  error), and the reason is \<open>None\<close>.
\<close>

theorem http_error_text_body:
  assumes "session_request e (session self) (EverHome_prepare e self m u p ps) = Returns r"
    and "400 \<le> status_code r" and "status_code r < 600"
    and "resp_json r = None"
    and "dumps_failure e p ps = None"
  shows "error_body r = Inr (if resp_text r = [] then PNone else PStr (resp_text r), PNone) \<and>
     fst (EverHome_internal_call e self m u p ps) =
     Inl (EverHomeError
       \<lparr>http_status = status_code r, error_code = - 1,
        message = resp_url r @ [CHR '':'', CHR 0x0A, CHR '' ''] @
          (if resp_text r = [] then ''None'' else resp_text r),
        reason = PNone, headers = Some (resp_headers r)\<rparr>)"
proof -
  have b: "error_body r = Inr (if resp_text r = [] then PNone else PStr (resp_text r), PNone)"
    using assms(4) by (simp add: error_body_def)
  then have "http_error_handler e r =
     EverHomeError
       \<lparr>http_status = status_code r, error_code = - 1,
        message = resp_url r @ [CHR '':'', CHR 0x0A, CHR '' ''] @
          (if resp_text r = [] then ''None'' else resp_text r),
        reason = PNone, headers = Some (resp_headers r)\<rparr>"
    by (simp add: http_error_handler_def EverHomeException_def)
  then show ?thesis
    using b try_request_error_status [OF assms(1-3)] assms(5)
    by (simp add: EverHome_internal_call_def)
qed

theorem http_error_text_body_witness:
  "fst (EverHome_internal_call demo_env demo_client ''GET'' ''devices'' PNone []) =
     Inl (EverHomeError
       \<lparr>http_status = 500, error_code = - 1,
        message = ''https://everhome.cloud/devices:'' @ [CHR 0x0A] @ '' internal error'',
        reason = PNone, headers = Some []\<rparr>) \<and>
   error_body (server_error_response ''https://everhome.cloud/empty'' []) = Inr (PNone, PNone) \<and>
   fst (EverHome_internal_call demo_env demo_client ''GET'' ''empty'' PNone []) =
     Inl (EverHomeError
       \<lparr>http_status = 500, error_code = - 1,
        message = ''https://everhome.cloud/empty:'' @ [CHR 0x0A] @ '' None'',
        reason = PNone, headers = Some []\<rparr>)"
  using http_error_text_body [of demo_env demo_client "''GET''" "''devices''" PNone "[]"
      "server_error_response ''https://everhome.cloud/devices'' ''internal error''"]
    http_error_text_body [of demo_env demo_client "''GET''" "''empty''" PNone "[]"
      "server_error_response ''https://everhome.cloud/empty'' []"]
  by (simp add: demo_answers server_error_response_def demo_dumps_none)

text \<open>
  C6. When the session raises a \<open>RetryError\<close> on the request of a call that got to it,
  the core request operation raises the typed
  error with status 429, error code -1, the message made of the path of the request, a
  colon, a line break, a blank and \<open>Max Retries\<close>, the reason of the first argument of the
  retry error (\<open>None\<close> when there is no argument or it has no reason), and no headers.
\<close>

theorem retry_error_max_retries:
  assumes "session_request e (session self) (EverHome_prepare e self m u p ps)
     = Raises (RetryError re)"
    and "dumps_failure e p ps = None"
  shows "fst (EverHome_internal_call e self m u p ps) =
     Inl (EverHomeError
       \<lparr>http_status = 429, error_code = - 1,
        message = path_url (err_request re) @ [CHR '':'', CHR 0x0A, CHR '' ''] @ ''Max Retries'',
        reason = (case err_args re of
                    [] \<Rightarrow> PNone
                  | a # _ \<Rightarrow> (case arg_reason a of None \<Rightarrow> PNone | Some x \<Rightarrow> x)),
        headers = None\<rparr>)"
  using assms
  by (simp add: EverHome_internal_call_def try_request_def retry_error_handler_def
      EverHomeException_def Let_def)

theorem retry_error_max_retries_witness:
  "fst (EverHome_internal_call demo_env demo_client ''GET'' ''busy'' PNone []) =
     Inl (EverHomeError
       \<lparr>http_status = 429, error_code = - 1,
        message = ''/devices:'' @ [CHR 0x0A] @ '' Max Retries'',
        reason = PStr ''too many 503 error responses'',
        headers = None\<rparr>)"
  using retry_error_max_retries [of demo_env demo_client "''GET''" "''busy''" PNone "[]"
      max_retries_error]
  by (simp add: demo_answers max_retries_error_def demo_dumps_none)

section \<open>Successful responses\<close>

text \<open>
  C7. For a response, to the request of a call that got to the session, whose status is
  not an HTTP error status, the core request operation returns the decoded JSON body,
  and returns \<open>None\<close>, raising nothing, when the
  body is not valid JSON.
\<close>

theorem success_body:
  assumes "session_request e (session self) (EverHome_prepare e self m u p ps) = Returns r"
    and "\<not> (400 \<le> status_code r \<and> status_code r < 600)"
    and "dumps_failure e p ps = None"
  shows "fst (EverHome_internal_call e self m u p ps) =
     Inr (case resp_json r of Some results \<Rightarrow> results | None \<Rightarrow> PNone)"
  using assms
  by (simp add: EverHome_internal_call_def try_request_def raise_for_status_def
      split: option.splits)

theorem success_body_witness:
  "fst (EverHome_internal_call demo_env demo_client ''GET'' ''ok'' PNone []) = Inr (PDict []) \<and>
   fst (EverHome_internal_call demo_env demo_client ''GET'' ''html'' PNone []) = Inr PNone"
  using success_body [of demo_env demo_client "''GET''" "''ok''" PNone "[]"
      "ok_response ''{}'' (Some (PDict []))"]
    success_body [of demo_env demo_client "''GET''" "''html''" PNone "[]"
      "ok_response ''<html></html>'' None"]
  by (simp add: demo_answers ok_response_def demo_dumps_none)

section \<open>The failures that leave the core request operation\<close>

text \<open>
  A connection error raised by the session is taken by none of the three handlers and
  leaves the call as it is, not as the typed error. So does the \<open>TypeError\<close> that
  \<open>json.dumps\<close> raises on a payload that is not JSON, before the \<open>try\<close> is entered.
\<close>

theorem other_exception_escapes:
  "session_request demo_env (session demo_client)
      (EverHome_prepare demo_env demo_client ''GET'' ''down'' PNone [])
     = Raises (OtherException ''ConnectionError'') \<and>
   fst (EverHome_internal_call demo_env demo_client ''GET'' ''down'' PNone [])
     = Inl (OtherException ''ConnectionError'') \<and>
   json_dumps_error demo_env (PObject ''set'' True) = Some (OtherException ''TypeError'') \<and>
   fst (EverHome_internal_call demo_env demo_client ''POST'' ''devices'' (PObject ''set'' True) [])
     = Inl (OtherException ''TypeError'')"
  by (simp add: EverHome_internal_call_def try_request_def demo_answers demo_dumps_none
      dumps_failure_def demo_dumps_object)

text \<open>
  C8, amended. A failure of the core request operation that is not an \<open>AttributeError\<close>
  is one of three: the typed error; an exception that \<open>json.dumps\<close> raised on a truthy
  payload without a \<open>content_type\<close> override, before any request was made; or an
  exception raised by the session, on the request of a call that got to it, that is
  neither an \<open>HTTPError\<close>, a \<open>RetryError\<close> nor a \<open>ValueError\<close> (a connection error, a
  timeout). The last two reach the caller unchanged.
\<close>

theorem failure_kinds:
  assumes "fst (EverHome_internal_call e self m u p ps) = Inl x"
    and "x \<noteq> AttributeError"
  shows "(\<exists>err. x = EverHomeError err) \<or>
     (map_of ps ''content_type'' = None \<and> truthy p \<and> json_dumps_error e p = Some x) \<or>
     (\<exists>n. x = OtherException n \<and> dumps_failure e p ps = None \<and>
        session_request e (session self) (EverHome_prepare e self m u p ps) = Raises x)"
proof (cases "dumps_failure e p ps")
  case (Some y)
  then have "x = y"
    using assms(1) by (simp add: EverHome_internal_call_def)
  then show ?thesis
    using Some by (auto simp: dumps_failure_def split: if_splits)
next
  case None
  then show ?thesis
    using assms
    by (auto simp: EverHome_internal_call_def try_request_def raise_for_status_def
        http_error_handler_def retry_error_handler_def Let_def
        dest: error_body_raises
        split: sum.splits py_exception.splits outcome.splits option.splits if_splits prod.splits)
qed

theorem failure_kinds_witness:
  "fst (EverHome_internal_call demo_env demo_client ''GET'' ''down'' PNone [])
     = Inl (OtherException ''ConnectionError'') \<and>
   OtherException ''ConnectionError'' \<noteq> AttributeError \<and>
   dumps_failure demo_env PNone [] = None \<and>
   session_request demo_env (session demo_client)
      (EverHome_prepare demo_env demo_client ''GET'' ''down'' PNone [])
     = Raises (OtherException ''ConnectionError'') \<and>
   fst (EverHome_internal_call demo_env demo_client ''POST'' ''devices'' (PObject ''set'' True) [])
     = Inl (OtherException ''TypeError'') \<and>
   OtherException ''TypeError'' \<noteq> AttributeError \<and>
   truthy (PObject ''set'' True) \<and>
   json_dumps_error demo_env (PObject ''set'' True) = Some (OtherException ''TypeError'')"
  using failure_kinds [of demo_env demo_client "''GET''" "''down''" PNone "[]"
      "OtherException ''ConnectionError''"]
    failure_kinds [of demo_env demo_client "''POST''" "''devices''" "PObject ''set'' True" "[]"
      "OtherException ''TypeError''"]
  by (simp add: EverHome_internal_call_def try_request_def demo_answers demo_dumps_none
      dumps_failure_def demo_dumps_object)

section \<open>The bearer token\<close>

text \<open>
  C9. Every request carries the header \<open>Authorization: Bearer <token>\<close> with the token
  stored in the client at the time of the call. \<open>set_auth\<close> replaces the stored token:
  every request of the calls made after it carries the new token, and the requests of the
  calls made before it carried the old one.
\<close>

theorem bearer_token:
  "authorization (EverHome_prepare e self m u p ps)
     = Some (PStr (''Bearer '' @ format_auth (auth self))) \<and>
   auth (EverHome_set_auth self t) = t \<and>
   list_all (\<lambda>r. authorization r = Some (PStr (''Bearer '' @ format_auth (auth self))))
     (fst (run_calls e self before)) \<and>
   list_all (\<lambda>r. authorization r = Some (PStr (''Bearer '' @ format_auth t)))
     (fst (run_calls e (EverHome_set_auth (snd (run_calls e self before)) t) after))"
proof -
  have "auth (EverHome_set_auth (snd (run_calls e self before)) t) = t"
    by (simp add: EverHome_set_auth_def)
  then show ?thesis
    using run_calls_authorization [of "EverHome_set_auth (snd (run_calls e self before)) t" e after]
      run_calls_authorization [of self e before] authorization_prepare [of e self m u p ps]
    by (simp add: EverHome_set_auth_def)
qed

theorem bearer_token_witness:
  "map authorization
     (fst (run_calls demo_env demo_client [(''GET'', ''ok'', PNone, []), (''GET'', ''down'', PNone, [])]))
     = [Some (PStr ''Bearer 123''), Some (PStr ''Bearer 123'')] \<and>
   map authorization
     (fst (run_calls demo_env
        (EverHome_set_auth
           (snd (run_calls demo_env demo_client
              [(''GET'', ''ok'', PNone, []), (''GET'', ''down'', PNone, [])]))
           (Some ''456''))
        [(''POST'', ''devices'', PNone, [(''content_type'', PStr ''text/plain'')])]))
     = [Some (PStr ''Bearer 456'')]"
  using bearer_token [of demo_env demo_client "''GET''" "''ok''" PNone "[]" "Some ''456''"
      "[(''GET'', ''ok'', PNone, []), (''GET'', ''down'', PNone, [])]"
      "[(''POST'', ''devices'', PNone, [(''content_type'', PStr ''text/plain'')])]"]
  by (simp add: Let_def demo_client_fields format_auth_def demo_dumps_none)

section \<open>What a call leaves unchanged\<close>

text \<open>
  C10. \<open>set_auth\<close> changes the stored token only: prefix, timeout and session stay. The
  core call, the four verb wrappers, \<open>user\<close> and \<open>test\<close> leave the client as it was,
  whether they return or raise.
\<close>

theorem client_frame:
  "prefix (EverHome_set_auth self a) = prefix self \<and>
   requests_timeout (EverHome_set_auth self a) = requests_timeout self \<and>
   session (EverHome_set_auth self a) = session self \<and>
   snd (EverHome_internal_call e self m u p ps) = self \<and>
   snd (EverHome_get e self u args p kw) = self \<and>
   snd (EverHome_post e self u args p kw) = self \<and>
   snd (EverHome_delete e self u args p kw) = self \<and>
   snd (EverHome_put e self u args p kw) = self \<and>
   snd (EverHome_user e self) = self \<and>
   snd (EverHome_test e self) = self"
proof -
  have t: "snd (EverHome_test e self) = self"
    using internal_call_client [of e self "''GET''" "''devices''" PNone "merge_args None []"]
    by (cases "EverHome_internal_call e self ''GET'' ''devices'' PNone (merge_args None [])")
      (auto simp: EverHome_test_def EverHome_get_def split: sum.splits)
  show ?thesis
    using t
    by (simp add: EverHome_set_auth_def internal_call_client EverHome_get_def EverHome_post_def
        EverHome_delete_def EverHome_put_def EverHome_user_def)
qed

end
